theory Spec2Isabelle
  imports Complex_Main "HOL-Library.AList"
begin

unbundle bit_operations_syntax

section \<open>Numbers, vectors and errors\<close>

text \<open>
  The program is \<^verbatim>\<open>src/js/AppStarter.js\<close>. A JavaScript number is modelled as a
  \<^typ>\<open>real\<close>; where the source can produce \<^verbatim>\<open>NaN\<close> (arithmetic on
  \<^verbatim>\<open>undefined\<close>, \<^verbatim>\<open>0/0\<close>) the value is a \<^typ>\<open>real option\<close> and
  \<^term>\<open>None\<close> stands for \<^verbatim>\<open>NaN\<close>: every comparison with it is false.
  Rounding of floating-point arithmetic is not modelled, except in
  \<^verbatim>\<open>advanceTime\<close>, where it decides how often the loop runs: there the
  subtraction and the division are parameters.
\<close>

type_synonym vec2 = "real \<times> real"

datatype error =
    ReferenceError string   \<comment> \<open>read of an identifier that no enclosing scope declares\<close>
  | InvalidConfig           \<comment> \<open>\<^verbatim>\<open>squishy.assert\<close> failing in the constructor of the world\<close>
  | DuplicateObjectId       \<comment> \<open>\<^verbatim>\<open>squishy.assert\<close> failing in \<^verbatim>\<open>addObject\<close>\<close>

text \<open>
  Reading an identifier that is declared in no enclosing scope throws a
  \<^verbatim>\<open>ReferenceError\<close>; the statement that reads it has no effect.
\<close>

definition unbound :: "string \<Rightarrow> error + 'a" where
  "unbound x = Inl (ReferenceError x)"

text \<open>
  A value passed where the source expects a vector: an array with the indices 0 and 1
  (\<^verbatim>\<open>vec2.fromValues\<close>), or an object literal \<^verbatim>\<open>{x: .., y: ..}\<close>, which has
  no indexed property, so that reading index 0 or 1 of it gives \<^verbatim>\<open>undefined\<close>.
\<close>

datatype vecarg = Arr real real | XY real real

fun idx :: "vecarg \<Rightarrow> nat \<Rightarrow> real option" where
  "idx (Arr a b) i = (if i = 0 then Some a else if i = 1 then Some b else None)"
| "idx (XY x y) i = None"

text \<open>
  Modelled from the spec: \<^verbatim>\<open>js/vec2.js\<close> is not among the sources. The functions
  of \<^verbatim>\<open>vec2\<close> that the program calls read and write the components by index:
  \<^verbatim>\<open>squaredDistance(a, b)\<close> is \<^verbatim>\<open>x = b[0] - a[0], y = b[1] - a[1]; x*x + y*y\<close>,
  \<^verbatim>\<open>subtract(out, a, b)\<close> and \<^verbatim>\<open>copy(out, a)\<close> write \<^verbatim>\<open>out\<close> in place
  and \<^verbatim>\<open>create()\<close> returns a new zero vector. Arithmetic on \<^verbatim>\<open>undefined\<close>
  gives \<^verbatim>\<open>NaN\<close>.
\<close>

definition squaredDistance :: "vecarg \<Rightarrow> vecarg \<Rightarrow> real option" where
  "squaredDistance a b =
     (case (idx a 0, idx a 1, idx b 0, idx b 1) of
        (Some a0, Some a1, Some b0, Some b1) \<Rightarrow>
           (let x = b0 - a0; y = b1 - a1 in Some (x * x + y * y))
      | _ \<Rightarrow> None)"

definition Math_sqrt :: "real option \<Rightarrow> real option" where
  "Math_sqrt x = (case x of None \<Rightarrow> None | Some d \<Rightarrow> if d < 0 then None else Some (sqrt d))"

text \<open>\<^verbatim>\<open>a <= b\<close> on numbers: false when the left operand is \<^verbatim>\<open>NaN\<close>.\<close>

definition js_le :: "real option \<Rightarrow> real \<Rightarrow> bool" where
  "js_le a b = (case a of None \<Rightarrow> False | Some x \<Rightarrow> x \<le> b)"

section \<open>Shapes\<close>

text \<open>
  \<^verbatim>\<open>AABB\<close> (lines 40--50 and 119--192): the fields \<^verbatim>\<open>min\<close> and
  \<^verbatim>\<open>max\<close>; the derived fields (\<^verbatim>\<open>dimensions\<close>, \<^verbatim>\<open>vertices\<close>,
  \<^verbatim>\<open>surfaces\<close>) are read by nothing modelled here and are left out.
\<close>

record aabb =
  aabb_min :: vec2
  aabb_max :: vec2

record disk =
  center :: vec2
  radius :: real

record line =
  v1 :: vec2
  v2 :: vec2
  width :: real

datatype shape = AABB aabb | Disk disk | Line line

text \<open>The constructor of \<^verbatim>\<open>Shapes.Line\<close>: \<^verbatim>\<open>this.width = def.width || 0.1\<close>.\<close>

definition new_Line :: "vec2 \<Rightarrow> vec2 \<Rightarrow> real \<Rightarrow> line" where
  "new_Line a b w = \<lparr>v1 = a, v2 = b, width = (if w = 0 then 0.1 else w)\<rparr>"

definition AABB_containsPoint :: "aabb \<Rightarrow> vec2 \<Rightarrow> bool" where
  "AABB_containsPoint s point =
     (let x = fst point; y = snd point
      in x \<ge> fst (aabb_min s) \<and> x \<le> fst (aabb_max s) \<and> y \<ge> snd (aabb_min s) \<and> y \<le> snd (aabb_max s))"

definition Disk_containsPoint :: "disk \<Rightarrow> vec2 \<Rightarrow> bool" where
  "Disk_containsPoint s point =
     (let distSq = squaredDistance (Arr (fst (center s)) (snd (center s))) (Arr (fst point) (snd point))
      in js_le distSq (radius s * radius s))"

text \<open>
  \<^verbatim>\<open>Disk.getBoundingBox\<close> (lines 230--235). The four assignments read the identifier
  \<^verbatim>\<open>radius\<close>, not the field \<^verbatim>\<open>this.radius\<close>; the file declares no variable of
  that name (it runs in strict mode inside one function), so the first assignment throws
  before anything is written.
\<close>

definition Disk_getBoundingBox :: "disk \<Rightarrow> aabb \<Rightarrow> error + aabb" where
  "Disk_getBoundingBox s box =
     (case unbound ''radius'' of
        Inl e \<Rightarrow> Inl e
      | Inr r \<Rightarrow>
          Inr (box\<lparr>aabb_min := (fst (center s) - r, snd (center s) - r),
                   aabb_max := (fst (center s) + r, snd (center s) + r)\<rparr>))"

text \<open>
  \<^verbatim>\<open>Line.containsPoint\<close> (lines 277--297) with its local function
  \<^verbatim>\<open>distToSegmentSquared(p, v, w)\<close>. The last \<^verbatim>\<open>return\<close> passes an object
  literal \<^verbatim>\<open>{x: .., y: ..}\<close> to \<^verbatim>\<open>vec2.squaredDistance\<close>.
\<close>

definition distToSegmentSquared :: "vec2 \<Rightarrow> vec2 \<Rightarrow> vec2 \<Rightarrow> real option" where
  "distToSegmentSquared p v w =
     (case squaredDistance (Arr (fst v) (snd v)) (Arr (fst w) (snd w)) of
        None \<Rightarrow> None
      | Some l2 \<Rightarrow>
          if l2 = 0 then squaredDistance (Arr (fst p) (snd p)) (Arr (fst v) (snd v))
          else
            let t = ((fst p - fst v) * (fst w - fst v) + (snd p - snd v) * (snd w - snd v)) / l2
            in if t < 0 then squaredDistance (Arr (fst p) (snd p)) (Arr (fst v) (snd v))
               else if t > 1 then squaredDistance (Arr (fst p) (snd p)) (Arr (fst w) (snd w))
               else squaredDistance (Arr (fst p) (snd p))
                      (XY (fst v + t * (fst w - fst v)) (snd v + t * (snd w - snd v))))"

definition Line_containsPoint :: "line \<Rightarrow> vec2 \<Rightarrow> bool" where
  "Line_containsPoint s point =
     (let distSq = distToSegmentSquared point (v1 s) (v2 s);
          dist = Math_sqrt distSq
      in js_le dist (width s))"

fun shape_containsPoint :: "shape \<Rightarrow> vec2 \<Rightarrow> bool" where
  "shape_containsPoint (AABB s) p = AABB_containsPoint s p"
| "shape_containsPoint (Disk s) p = Disk_containsPoint s p"
| "shape_containsPoint (Line s) p = Line_containsPoint s p"

text \<open>
  What the specification asks of \<^verbatim>\<open>Line.containsPoint\<close> and
  \<^verbatim>\<open>Disk.getBoundingBox\<close>, written from its words for comparison with the code:
  the distance from the point to the segment, with the projection parameter clamped to
  \<open>[0, 1]\<close>, and the box that pads the centre by the radius.
\<close>

definition spec_segment_distance :: "vec2 \<Rightarrow> vec2 \<Rightarrow> vec2 \<Rightarrow> real" where
  "spec_segment_distance p v w =
     (let l2 = (fst w - fst v)\<^sup>2 + (snd w - snd v)\<^sup>2;
          t0 = (if l2 = 0 then 0
                else ((fst p - fst v) * (fst w - fst v) + (snd p - snd v) * (snd w - snd v)) / l2);
          t = max 0 (min 1 t0);
          qx = fst v + t * (fst w - fst v);
          qy = snd v + t * (snd w - snd v)
      in sqrt ((fst p - qx)\<^sup>2 + (snd p - qy)\<^sup>2))"

definition spec_disk_box :: "disk \<Rightarrow> aabb" where
  "spec_disk_box s =
     \<lparr>aabb_min = (fst (center s) - radius s, snd (center s) - radius s),
      aabb_max = (fst (center s) + radius s, snd (center s) + radius s)\<rparr>"

section \<open>World objects\<close>

text \<open>
  Vectors are JavaScript arrays, passed by reference, and \<^verbatim>\<open>vec2.subtract\<close> and
  \<^verbatim>\<open>vec2.copy\<close> write their first argument in place. The vectors that the
  program writes through a reference (an object's position, a query point) live in a
  heap: a list of cells, a reference being the index of a cell. A reference held by the
  program always points to a cell, so the properties below assume
  \<open>a < length h\<close> for the references they are given.
\<close>

type_synonym addr = nat
type_synonym heap = "vec2 list"

definition vec2_create :: "heap \<Rightarrow> addr \<times> heap" where
  "vec2_create h = (length h, h @ [(0, 0)])"

definition vec2_copy :: "addr \<Rightarrow> addr \<Rightarrow> heap \<Rightarrow> heap" where
  "vec2_copy out a h = h[out := h ! a]"

definition vec2_subtract :: "addr \<Rightarrow> addr \<Rightarrow> addr \<Rightarrow> heap \<Rightarrow> heap" where
  "vec2_subtract out a b h = h[out := (fst (h ! a) - fst (h ! b), snd (h ! a) - snd (h ! b))]"

text \<open>
  Modelled from the spec: \<^verbatim>\<open>squishy.makeFlagEnum\<close> is not among the sources; the
  object type is a set of bit flags, \<^verbatim>\<open>RigidBody\<close> the first and
  \<^verbatim>\<open>Movable\<close> the second.
\<close>

definition ObjectType_RigidBody :: nat where
  "ObjectType_RigidBody = 1"

definition ObjectType_Movable :: nat where
  "ObjectType_Movable = 2"

text \<open>
  \<^verbatim>\<open>Objects.RigidBody\<close> and \<^verbatim>\<open>Objects.Movable\<close> (lines 342--439). The
  class of the object decides \<^verbatim>\<open>getObjectType\<close>; \<^verbatim>\<open>objectId\<close> is
  \<^verbatim>\<open>undefined\<close> (\<^term>\<open>None\<close>) until the object is given one. The velocity,
  the acceleration and the ground flags of a movable are read by nothing modelled here.
\<close>

datatype objclass = RigidBody | Movable

record wobj =
  objectId :: "int option"
  cls :: objclass
  position :: addr
  shape :: shape

definition getObjectType :: "wobj \<Rightarrow> nat" where
  "getObjectType obj =
     (case cls obj of
        RigidBody \<Rightarrow> ObjectType_RigidBody
      | Movable \<Rightarrow> ObjectType_RigidBody OR ObjectType_Movable)"

definition isObjectType :: "wobj \<Rightarrow> nat \<Rightarrow> nat" where
  "isObjectType obj objectType = getObjectType obj AND objectType"

text \<open>A number used as a condition: every number but 0 (and \<^verbatim>\<open>NaN\<close>) is true.\<close>

definition truthy :: "nat \<Rightarrow> bool" where
  "truthy n = (n \<noteq> 0)"

text \<open>
  \<^verbatim>\<open>RigidBody.containsPoint\<close> (lines 371--377):
  \<^verbatim>\<open>vec2.subtract(worldPoint, worldPoint, this.position)\<close> writes the argument and
  returns it; the shape is asked about the written vector. The result is the answer and
  the heap after the call.
\<close>

definition RigidBody_containsPoint :: "wobj \<Rightarrow> addr \<Rightarrow> heap \<Rightarrow> bool \<times> heap" where
  "RigidBody_containsPoint obj worldPoint h =
     (let h1 = vec2_subtract worldPoint worldPoint (position obj) h;
          localPoint = worldPoint
      in (shape_containsPoint (shape obj) (h1 ! localPoint), h1))"

section \<open>Collision list\<close>

text \<open>
  Modelled from the spec: the class \<^verbatim>\<open>CollisionPair\<close> is used by
  \<^verbatim>\<open>CollisionList\<close> and defined nowhere in the sources. It holds the two object
  references and \<^verbatim>\<open>lastActiveIteration\<close>; \<^verbatim>\<open>setObjects\<close> binds the pair
  to two objects and \<^verbatim>\<open>refresh(it)\<close> records \<^verbatim>\<open>lastActiveIteration = it\<close>.
\<close>

record CollisionPair =
  pair_obj1 :: "wobj option"
  pair_obj2 :: "wobj option"
  lastActiveIteration :: "int option"

definition new_CollisionPair :: CollisionPair where
  "new_CollisionPair = \<lparr>pair_obj1 = None, pair_obj2 = None, lastActiveIteration = None\<rparr>"

definition setObjects :: "wobj \<Rightarrow> wobj \<Rightarrow> CollisionPair \<Rightarrow> CollisionPair" where
  "setObjects a b pair = pair\<lparr>pair_obj1 := Some a, pair_obj2 := Some b\<rparr>"

definition refresh :: "int \<Rightarrow> CollisionPair \<Rightarrow> CollisionPair" where
  "refresh it pair = pair\<lparr>lastActiveIteration := Some it\<rparr>"

text \<open>
  \<^verbatim>\<open>CollisionList\<close> (lines 450--544). \<^verbatim>\<open>pairs\<close> is an object whose
  property names are object ids and whose values are objects of the same kind holding
  the pairs; both are association lists here, the key \<^term>\<open>None\<close> being the property
  name of an \<^verbatim>\<open>undefined\<close> id.
\<close>

type_synonym pairmap = "(int option \<times> (int option \<times> CollisionPair) list) list"

record CollisionList =
  pairs :: pairmap
  pairPool :: "CollisionPair list"
  cl_currentIteration :: int

definition new_CollisionList :: CollisionList where
  "new_CollisionList = \<lparr>pairs = [], pairPool = [], cl_currentIteration = - 1\<rparr>"

definition setCurrentIteration :: "int \<Rightarrow> CollisionList \<Rightarrow> CollisionList" where
  "setCurrentIteration it cl = cl\<lparr>cl_currentIteration := it\<rparr>"

text \<open>
  \<^verbatim>\<open>compareObjects\<close> (lines 466--475): true if \<^verbatim>\<open>obj1\<close> comes first.
  \<^verbatim>\<open>obj1.objectId - obj2.objectId > 0\<close> is false when an id is
  \<^verbatim>\<open>undefined\<close>.
\<close>

definition compareObjects :: "wobj \<Rightarrow> wobj \<Rightarrow> bool" where
  "compareObjects obj1 obj2 =
     (let isObj1Movable = isObjectType obj1 ObjectType_Movable;
          isObj2Movable = isObjectType obj2 ObjectType_Movable
      in if isObj1Movable = isObj2Movable
         then (case (objectId obj1, objectId obj2) of
                 (Some i, Some j) \<Rightarrow> i - j > 0
               | _ \<Rightarrow> False)
         else (if truthy isObj1Movable then True else False))"

text \<open>
  \<^verbatim>\<open>getOrCreatePair\<close> (lines 492--520). The nested object for the first id is
  created, if missing, before anything else. In the branch that takes a pair from the
  pool, the pool is read through the identifier \<^verbatim>\<open>pairPool\<close>, which no scope
  declares (the pool is the field \<^verbatim>\<open>this.pairPool\<close>, as the test of its length
  one line above reads it). The result is the pair, or the error thrown, and the list
  after the call.
\<close>

definition getOrCreatePair ::
  "wobj \<Rightarrow> wobj \<Rightarrow> CollisionList \<Rightarrow> (error + CollisionPair) \<times> CollisionList" where
  "getOrCreatePair obj1 obj2 cl =
     (let cl1 = (case map_of (pairs cl) (objectId obj1) of
                   Some l \<Rightarrow> cl
                 | None \<Rightarrow> cl\<lparr>pairs := AList.update (objectId obj1) [] (pairs cl)\<rparr>);
          obj1CollisionList = (case map_of (pairs cl1) (objectId obj1) of Some l \<Rightarrow> l | None \<Rightarrow> []);
          store = (\<lambda>pair. cl1\<lparr>pairs := AList.update (objectId obj1)
                     (AList.update (objectId obj2) pair obj1CollisionList) (pairs cl1)\<rparr>)
      in case map_of obj1CollisionList (objectId obj2) of
           Some pair \<Rightarrow>
             (let pair1 = refresh (cl_currentIteration cl1) pair in (Inr pair1, store pair1))
         | None \<Rightarrow>
             (let got = (if length (pairPool cl1) > 0
                         then (let idx = length (pairPool cl1) - 1
                               in case unbound ''pairPool'' of
                                    Inl e \<Rightarrow> Inl e
                                  | Inr pool \<Rightarrow> Inr (pool ! idx))
                         else Inr new_CollisionPair)
              in case got of
                   Inl e \<Rightarrow> (Inl e, cl1)
                 | Inr pair \<Rightarrow>
                     (let pair1 = refresh (cl_currentIteration cl1) (setObjects obj1 obj2 pair)
                      in (Inr pair1, store pair1))))"

text \<open>
  \<^verbatim>\<open>addPair\<close> (lines 477--490). The three assignments of the swap are kept as the
  source has them: \<^verbatim>\<open>tmp = obj2; obj2 = obj1; obj1 = obj2\<close>.
\<close>

definition swap_in_addPair :: "wobj \<Rightarrow> wobj \<Rightarrow> wobj \<times> wobj" where
  "swap_in_addPair obj1 obj2 =
     (let tmp = obj2;
          obj2 = obj1;
          obj1 = obj2
      in (obj1, obj2))"

definition addPair ::
  "wobj \<Rightarrow> wobj \<Rightarrow> CollisionList \<Rightarrow> (error + CollisionPair) \<times> CollisionList" where
  "addPair obj1 obj2 cl =
     (let (a, b) = (if \<not> compareObjects obj1 obj2 then swap_in_addPair obj1 obj2 else (obj1, obj2))
      in getOrCreatePair a b cl)"

text \<open>The pairs a list stores, over all first ids.\<close>

definition storedPairs :: "CollisionList \<Rightarrow> ((int option \<times> int option) \<times> CollisionPair) list" where
  "storedPairs cl = concat (map (\<lambda>(i, l). map (\<lambda>(j, pair). ((i, j), pair)) l) (pairs cl))"

text \<open>Two static bodies with the ids 1 and 2, used as concrete inputs.\<close>

definition bodyA :: wobj where
  "bodyA = \<lparr>objectId = Some 1, cls = RigidBody, position = 0,
             shape = Disk \<lparr>center = (0, 0), radius = 1\<rparr>\<rparr>"

definition bodyB :: wobj where
  "bodyB = \<lparr>objectId = Some 2, cls = RigidBody, position = 1,
             shape = Disk \<lparr>center = (0, 0), radius = 1\<rparr>\<rparr>"

section \<open>World\<close>

text \<open>
  \<^verbatim>\<open>PulleyWorld\<close> (lines 551--741). \<^verbatim>\<open>config.stepIntegrate\<close> is the
  callback of the physics; the one this program configures ignores its receiver and
  works on the pulley and its controller, so the callback is a function on a state
  \<^typ>\<open>'p\<close> of its own, kept beside the world. \<^verbatim>\<open>objects\<close> and
  \<^verbatim>\<open>movables\<close> are objects used as maps from ids. \<^verbatim>\<open>running\<close> starts
  \<^verbatim>\<open>undefined\<close>, which every use reads as false; \<^verbatim>\<open>lastStepTime\<close> starts
  \<^verbatim>\<open>undefined\<close> (\<^term>\<open>None\<close>) and adding to it gives \<^verbatim>\<open>NaN\<close>
  (\<^term>\<open>None\<close> again). The events fired for listeners are not modelled.
\<close>

record 'p world =
  lastObjectId :: int
  currentIteration :: int
  totalTime :: real
  config_dt :: real
  stepIntegrate :: "real \<Rightarrow> 'p \<Rightarrow> 'p"
  objects :: "(int \<times> wobj) list"
  movables :: "(int \<times> wobj) list"
  collisions :: CollisionList
  running :: bool
  lastStepTime :: "real option"

text \<open>
  The constructor: \<^verbatim>\<open>config.dt = config.dt || .06\<close>, then
  \<^verbatim>\<open>squishy.assert(config.dt > 0)\<close>. Modelled from the spec:
  \<^verbatim>\<open>squishy.assert\<close> is not among the sources; a failing assertion aborts the
  call.
\<close>

definition initialWorld :: "real \<Rightarrow> (real \<Rightarrow> 'p \<Rightarrow> 'p) \<Rightarrow> 'p world" where
  "initialWorld dt callback =
     \<lparr>lastObjectId = 0, currentIteration = 1, totalTime = 0, config_dt = dt,
      stepIntegrate = callback, objects = [], movables = [],
      collisions = new_CollisionList, running = False, lastStepTime = None\<rparr>"

definition PulleyWorld :: "real option \<Rightarrow> (real \<Rightarrow> 'p \<Rightarrow> 'p) \<Rightarrow> error + 'p world" where
  "PulleyWorld dt callback =
     (let dt1 = (case dt of None \<Rightarrow> 0.06 | Some d \<Rightarrow> if d = 0 then 0.06 else d)
      in if \<not> dt1 > 0 then Inl InvalidConfig
         else Inr (initialWorld dt1 callback))"

text \<open>
  \<^verbatim>\<open>addObject\<close> (lines 612--629):
  \<^verbatim>\<open>obj.objectId = obj.objectId || ++this.lastObjectId\<close> takes a fresh id when the
  object's id is \<^verbatim>\<open>undefined\<close> or 0; the assertion comes before the maps are
  written. The result is the outcome, the object as the call leaves it and the world.
\<close>

definition addObject :: "wobj \<Rightarrow> 'p world \<Rightarrow> (error + unit) \<times> wobj \<times> 'p world" where
  "addObject obj w =
     (let fresh = (lastObjectId w + 1, w\<lparr>lastObjectId := lastObjectId w + 1\<rparr>);
          (oid, w1) = (case objectId obj of
                         Some i \<Rightarrow> if i \<noteq> 0 then (i, w) else fresh
                       | None \<Rightarrow> fresh);
          obj1 = obj\<lparr>objectId := Some oid\<rparr>
      in if map_of (objects w1) oid \<noteq> None then (Inl DuplicateObjectId, obj1, w1)
         else (Inr (), obj1,
               w1\<lparr>objects := AList.update oid obj1 (objects w1),
                  movables := (if truthy (isObjectType obj1 ObjectType_Movable)
                               then AList.update oid obj1 (movables w1)
                               else movables w1)\<rparr>))"

text \<open>\<^verbatim>\<open>removeObject\<close> (lines 634--643); deleting an absent property changes nothing.\<close>

definition removeObject :: "wobj \<Rightarrow> 'p world \<Rightarrow> 'p world" where
  "removeObject obj w =
     (case objectId obj of
        None \<Rightarrow> w
      | Some i \<Rightarrow>
          w\<lparr>objects := AList.delete i (objects w),
            movables := (if truthy (isObjectType obj ObjectType_Movable)
                         then AList.delete i (movables w)
                         else movables w)\<rparr>)"

text \<open>
  A sequence of calls of \<^verbatim>\<open>addObject\<close> and \<^verbatim>\<open>removeObject\<close>, and the ids
  that \<^verbatim>\<open>addObject\<close> takes from its counter along it (for the objects passed
  without an id), in the order of the calls.
\<close>

datatype wop = Add wobj | Remove wobj

definition hasNoId :: "wobj \<Rightarrow> bool" where
  "hasNoId obj = (case objectId obj of None \<Rightarrow> True | Some i \<Rightarrow> i = 0)"

fun idOf :: "wobj \<Rightarrow> int list" where
  "idOf obj = (case objectId obj of None \<Rightarrow> [] | Some i \<Rightarrow> [i])"

fun counterIds :: "wop list \<Rightarrow> 'p world \<Rightarrow> int list" where
  "counterIds [] w = []"
| "counterIds (Add obj # ops) w =
     (case addObject obj w of
        (r, obj1, w1) \<Rightarrow> (if hasNoId obj then idOf obj1 else []) @ counterIds ops w1)"
| "counterIds (Remove obj # ops) w = counterIds ops (removeObject obj w)"

text \<open>
  \<^verbatim>\<open>foreachObjectAtPoint\<close> (lines 652--664): one scratch vector is created for
  the call and the query point is copied into it before each object is asked. The
  callback works on an accumulator of its own. The association list is walked in its
  own order; the order only decides the order of the callbacks.
\<close>

fun foreach_loop ::
  "(wobj \<Rightarrow> 'a \<Rightarrow> 'a) \<Rightarrow> addr \<Rightarrow> addr \<Rightarrow> (int \<times> wobj) list \<Rightarrow> heap \<Rightarrow> 'a \<Rightarrow> heap \<times> 'a" where
  "foreach_loop callback point qpoint [] h acc = (h, acc)"
| "foreach_loop callback point qpoint ((k, obj) # rest) h acc =
     (let h1 = vec2_copy point qpoint h;
          (hit, h2) = RigidBody_containsPoint obj point h1
      in foreach_loop callback point qpoint rest h2 (if hit then callback obj acc else acc))"

definition foreachObjectAtPoint ::
  "addr \<Rightarrow> (wobj \<Rightarrow> 'a \<Rightarrow> 'a) \<Rightarrow> 'p world \<Rightarrow> heap \<Rightarrow> 'a \<Rightarrow> heap \<times> 'a" where
  "foreachObjectAtPoint qpoint callback w h acc =
     (let (point, h1) = vec2_create h
      in foreach_loop callback point qpoint (objects w) h1 acc)"


definition startLoop :: "real \<Rightarrow> 'p world \<Rightarrow> 'p world" where
  "startLoop now w = (if running w then w else w\<lparr>lastStepTime := Some now, running := True\<rparr>)"

definition stopLoop :: "'p world \<Rightarrow> 'p world" where
  "stopLoop w = (if \<not> running w then w else w\<lparr>running := False\<rparr>)"

definition startStopLoop :: "real \<Rightarrow> 'p world \<Rightarrow> 'p world" where
  "startStopLoop now w = (if running w then stopLoop w else startLoop now w)"

definition world_step :: "real option \<Rightarrow> 'p world \<times> 'p \<Rightarrow> 'p world \<times> 'p" where
  "world_step dt0 s =
     (let w = fst s;
          w1 = w\<lparr>currentIteration := currentIteration w + 1\<rparr>;
          dt = (case dt0 of None \<Rightarrow> config_dt w1 | Some d \<Rightarrow> if d = 0 then config_dt w1 else d);
          w2 = w1\<lparr>totalTime := totalTime w1 + dt\<rparr>;
          w3 = w2\<lparr>lastStepTime := map_option (\<lambda>t. t + dt * 1000) (lastStepTime w2)\<rparr>
      in (w3, stepIntegrate w3 dt (snd s)))"

definition stepOnce :: "'p world \<times> 'p \<Rightarrow> 'p world \<times> 'p" where
  "stepOnce s = world_step None s"







text \<open>
  Concrete worlds, used as inputs: a new world with the default tick and no physics, the
  same world with a tick of half a second started at time 0, and an object without an id.
\<close>

definition emptyWorld :: "unit world" where
  "emptyWorld = initialWorld (3 / 50) (\<lambda>dt p. p)"


definition bodyNoId :: wobj where
  "bodyNoId = \<lparr>objectId = None, cls = Movable, position = 1,
                shape = Disk \<lparr>center = (0, 0), radius = 1\<rparr>\<rparr>"

section \<open>Pulley\<close>

text \<open>
  \<^verbatim>\<open>CreatePulley\<close> (lines 1423--1646). \<^verbatim>\<open>pulley.physics\<close> holds the free
  and the dependent variables; the quantities \<^verbatim>\<open>totalPayloadMass\<close>,
  \<^verbatim>\<open>B\<close>, \<^verbatim>\<open>W\<close>, \<^verbatim>\<open>D\<close>, \<^verbatim>\<open>F\<close> and \<^verbatim>\<open>a\<close> do not exist
  (\<^term>\<open>None\<close>) before the first step writes them. \<^verbatim>\<open>pulleyTop\<close> is the variable
  of the closure that is set once to the height of the disk.
\<close>

record physics =
  isValveOpen :: bool
  isPumpOn :: bool
  ballonetVolume :: real
  payloadPosition :: real
  payloadVelocity :: real
  totalPayloadMass :: "real option"
  phys_B :: "real option"
  phys_W :: "real option"
  phys_F :: "real option"
  phys_a :: "real option"
  phys_D :: "real option"

record pulley =
  freeStringLength :: real
  diskRadius :: real
  diskPosition :: vec2
  payloadSize :: vec2
  payloadMass :: real
  counterWeightSize :: vec2
  counterWeightMass :: real
  ballonetPumpInFlow :: real
  ballonetOutFlow :: real
  physics :: physics
  pulleyTop :: real

definition CreatePulley :: "real \<Rightarrow> pulley" where
  "CreatePulley topY =
     (let diskRadius0 = 0.5
      in \<lparr>freeStringLength = 3,
          diskRadius = diskRadius0,
          diskPosition = (0, topY - 0.1 - diskRadius0),
          payloadSize = (0.2, 0.1),
          payloadMass = 0.49,
          counterWeightSize = (0.3, 0.2),
          counterWeightMass = 0.5,
          ballonetPumpInFlow = 0.006,
          ballonetOutFlow = 0.01,
          physics = \<lparr>isValveOpen = False, isPumpOn = True, ballonetVolume = 0.01,
                      payloadPosition = 1.5, payloadVelocity = 0,
                      totalPayloadMass = None, phys_B = None, phys_W = None, phys_F = None,
                      phys_a = None, phys_D = None\<rparr>,
          pulleyTop = topY - 0.1 - diskRadius0\<rparr>)"

text \<open>
  \<^verbatim>\<open>pulley.stepIntegrate\<close> (lines 1510--1586), in its two parts. The first part
  (to the update of the position) moves the air, sums the forces and integrates; the
  acceleration is \<^verbatim>\<open>F / Math.abs(totalPayloadMass - counterWeightMass)\<close>, which is
  \<^verbatim>\<open>0/0\<close> when the two masses are equal: velocity and position are
  \<^verbatim>\<open>NaN\<close> from then on, and the result is \<^term>\<open>None\<close>.
\<close>

definition integrate :: "real \<Rightarrow> pulley \<Rightarrow> pulley option" where
  "integrate dt pl =
     (let ph = physics pl;
          vol1 = (if isPumpOn ph then ballonetVolume ph + ballonetPumpInFlow pl * dt
                  else ballonetVolume ph);
          vol2 = (if isValveOpen ph then max 0 (vol1 - ballonetOutFlow pl * dt) else vol1);
          g = - 9.81;
          airDensity = 1.2;
          frictionConstant = 10;
          m = payloadMass pl + vol2 * airDensity;
          v = payloadVelocity ph;
          epsilon = 0;
          B = m * g;
          W = counterWeightMass pl * g;
          F = B - W + epsilon
      in if \<bar>m - counterWeightMass pl\<bar> = 0 then None
         else
           let a = F / \<bar>m - counterWeightMass pl\<bar>;
               D = - frictionConstant * v;
               v1 = v + (a + D) * dt;
               pos1 = payloadPosition ph + v1 * dt
           in Some (pl\<lparr>physics := ph\<lparr>ballonetVolume := vol2, totalPayloadMass := Some m,
                       phys_B := Some B, phys_W := Some W, phys_F := Some F, phys_a := Some a,
                       phys_D := Some D, payloadVelocity := v1, payloadPosition := pos1\<rparr>\<rparr>))"

text \<open>
  The second part resolves the collisions, in the order of the source: the right side
  against the floor, the left side against the floor, the right side against the wheel,
  the left side against the wheel. \<open>cfg_floor\<close> is \<^verbatim>\<open>world.config.floor\<close>. The
  dependent geometry and the placement of the drawn components, which this part also
  updates, are read by nothing here and are left out, as is the hook
  \<^verbatim>\<open>onStep\<close>.
\<close>

definition resolveCollisions :: "real \<Rightarrow> pulley \<Rightarrow> pulley" where
  "resolveCollisions cfg_floor pl =
     (let ph = physics pl;
          rightStringLength = payloadPosition ph;
          leftStringLength = freeStringLength pl - payloadPosition ph;
          floorHeight = pulleyTop pl - cfg_floor
      in if rightStringLength > floorHeight
         then pl\<lparr>physics := ph\<lparr>payloadPosition := pulleyTop pl, payloadVelocity := 0\<rparr>\<rparr>
         else if leftStringLength > floorHeight
         then pl\<lparr>physics := ph\<lparr>payloadPosition := freeStringLength pl - floorHeight,
                                payloadVelocity := 0\<rparr>\<rparr>
         else if rightStringLength < 0
         then pl\<lparr>physics := ph\<lparr>payloadPosition := 0, payloadVelocity := 0\<rparr>\<rparr>
         else if leftStringLength < 0
         then pl\<lparr>physics := ph\<lparr>payloadPosition := freeStringLength pl, payloadVelocity := 0\<rparr>\<rparr>
         else pl)"

definition pulley_stepIntegrate :: "real \<Rightarrow> real \<Rightarrow> pulley \<Rightarrow> pulley option" where
  "pulley_stepIntegrate cfg_floor dt pl = map_option (resolveCollisions cfg_floor) (integrate dt pl)"

text \<open>The interface for the controller (lines 1594--1619).\<close>

definition getControllerValue :: "pulley \<Rightarrow> real" where
  "getControllerValue pl = payloadPosition (physics pl)"

definition setControllerValue :: "real \<Rightarrow> pulley \<Rightarrow> pulley" where
  "setControllerValue u pl =
     (let epsilon = 0.0000001
      in if u > epsilon
         then pl\<lparr>physics := (physics pl)\<lparr>isPumpOn := False, isValveOpen := True\<rparr>\<rparr>
         else if u < - epsilon
         then pl\<lparr>physics := (physics pl)\<lparr>isPumpOn := True, isValveOpen := False\<rparr>\<rparr>
         else pl\<lparr>physics := (physics pl)\<lparr>isPumpOn := False, isValveOpen := False\<rparr>\<rparr>)"

section \<open>PID controller\<close>

text \<open>
  \<^verbatim>\<open>PIDControllerClass\<close> (lines 1652--1698). The configuration is copied into the
  controller; the plant is the pulley and is passed beside it.
  \<^verbatim>\<open>update\<close> returns nothing (\<^term>\<open>None\<close>) when the controller is off.
\<close>

record PIDphysics =
  errorValue :: real
  Pout :: real
  Iout :: real
  Dout :: real
  pid_u :: real

record PIDController =
  setPoint :: real
  isOn :: bool
  kP :: real
  kI :: real
  kD :: real
  pid_physics :: PIDphysics

definition PIDControllerClass :: "real \<Rightarrow> bool \<Rightarrow> real \<Rightarrow> real \<Rightarrow> real \<Rightarrow> PIDController" where
  "PIDControllerClass sp on p i d =
     \<lparr>setPoint = sp, isOn = on, kP = p, kI = i, kD = d,
      pid_physics = \<lparr>errorValue = 0, Pout = 0, Iout = 0, Dout = 0, pid_u = 0\<rparr>\<rparr>"

definition PID_update :: "PIDController \<Rightarrow> pulley \<Rightarrow> real option \<times> PIDController \<times> pulley" where
  "PID_update c plant =
     (if \<not> isOn c then (None, c, plant)
      else
        let val = getControllerValue plant;
            lastErrorValue = errorValue (pid_physics c);
            ph1 = (pid_physics c)\<lparr>errorValue := setPoint c - val\<rparr>;
            ph2 = ph1\<lparr>Pout := kP c * errorValue ph1\<rparr>;
            ph3 = ph2\<lparr>Iout := Iout ph2 + kI c * errorValue ph2\<rparr>;
            ph4 = ph3\<lparr>Dout := kD c * (errorValue ph3 - lastErrorValue)\<rparr>;
            u = Pout ph4 + Iout ph4 + Dout ph4;
            ph5 = ph4\<lparr>pid_u := u\<rparr>
        in (Some u, c\<lparr>pid_physics := ph5\<rparr>, setControllerValue u plant))"

text \<open>\<^verbatim>\<open>$scope.toggleController\<close> (lines 1768--1770).\<close>

definition toggleController :: "PIDController \<Rightarrow> PIDController" where
  "toggleController c = c\<lparr>isOn := \<not> isOn c\<rparr>"

text \<open>
  The values returned by a sequence of \<^verbatim>\<open>update\<close> calls: each entry says whether
  the controller is toggled before the call and gives the plant the call finds (the
  plant moves between the calls).
\<close>

fun outputs :: "PIDController \<Rightarrow> (bool \<times> pulley) list \<Rightarrow> (real option \<times> PIDController \<times> pulley) list" where
  "outputs c [] = []"
| "outputs c ((toggle, plant) # rest) =
     (let c1 = (if toggle then toggleController c else c);
          r = PID_update c1 plant
      in r # outputs (fst (snd r)) rest)"

text \<open>
  The step of the program (lines 1700--1704): the controller, then the pulley. The
  program's configuration: ceiling 5, floor 0, a tick of 0.015 seconds.
\<close>

definition app_stepIntegrate ::
  "real \<Rightarrow> real \<Rightarrow> PIDController \<times> pulley \<Rightarrow> (PIDController \<times> pulley) option" where
  "app_stepIntegrate cfg_floor dt s =
     (case PID_update (fst s) (snd s) of
        (u, c1, plant1) \<Rightarrow> map_option (\<lambda>plant2. (c1, plant2)) (pulley_stepIntegrate cfg_floor dt plant1))"

text \<open>
  Concrete pulleys: the program's pulley after the controller opened the valve, and the
  same pulley with an empty ballonet, rising at its terminal velocity just below the
  upper end of the string.
\<close>

definition valveOpenPulley :: pulley where
  "valveOpenPulley = setControllerValue 1 (CreatePulley 5)"

definition nearEndPulley :: pulley where
  "nearEndPulley =
     valveOpenPulley\<lparr>physics := (physics valveOpenPulley)\<lparr>ballonetVolume := 0,
        payloadPosition := 2.99, payloadVelocity := 0.981\<rparr>\<rparr>"

text \<open>
  \<open>n\<close> steps of the program from a controller and a pulley; \<^term>\<open>None\<close> when a step
  meets equal masses.
\<close>

fun run_app :: "real \<Rightarrow> real \<Rightarrow> nat \<Rightarrow> PIDController \<times> pulley \<Rightarrow> (PIDController \<times> pulley) option" where
  "run_app cfg_floor dt 0 s = Some s"
| "run_app cfg_floor dt (Suc n) s =
     (case app_stepIntegrate cfg_floor dt s of
        None \<Rightarrow> None
      | Some s1 \<Rightarrow> run_app cfg_floor dt n s1)"

section \<open>Properties\<close>

subsection \<open>Shapes\<close>

text \<open>
  C8. \<^verbatim>\<open>Disk.getBoundingBox\<close> is claimed to set the box to the centre padded by the
  radius. On the unit disk at the origin the code throws a \<^verbatim>\<open>ReferenceError\<close>
  for \<^verbatim>\<open>radius\<close> and returns no box, where the claim asks for the box from
  \<open>(-1, -1)\<close> to \<open>(1, 1)\<close>.
\<close>

theorem Disk_getBoundingBox_throws:
  "Disk_getBoundingBox \<lparr>center = (0, 0), radius = 1\<rparr> \<lparr>aabb_min = (0, 0), aabb_max = (0, 0)\<rparr>
     = Inl (ReferenceError ''radius'')
   \<and> spec_disk_box \<lparr>center = (0, 0), radius = 1\<rparr> = \<lparr>aabb_min = (-1, -1), aabb_max = (1, 1)\<rparr>"
  by (simp add: Disk_getBoundingBox_def unbound_def spec_disk_box_def)

text \<open>
  Whenever the projection of the point falls inside a segment that is not a single
  point, \<^verbatim>\<open>Line.containsPoint\<close> answers false, however near the point is.
\<close>

lemma Line_containsPoint_inside_false:
  assumes "v1 s \<noteq> v2 s"
    and "0 \<le> (fst p - fst (v1 s)) * (fst (v2 s) - fst (v1 s)) + (snd p - snd (v1 s)) * (snd (v2 s) - snd (v1 s))"
    and "(fst p - fst (v1 s)) * (fst (v2 s) - fst (v1 s)) + (snd p - snd (v1 s)) * (snd (v2 s) - snd (v1 s))
           \<le> (fst (v2 s) - fst (v1 s))\<^sup>2 + (snd (v2 s) - snd (v1 s))\<^sup>2"
  shows "\<not> Line_containsPoint s p"
proof -
  let ?l2 = "(fst (v2 s) - fst (v1 s)) * (fst (v2 s) - fst (v1 s)) + (snd (v2 s) - snd (v1 s)) * (snd (v2 s) - snd (v1 s))"
  have ne: "fst (v1 s) \<noteq> fst (v2 s) \<or> snd (v1 s) \<noteq> snd (v2 s)"
    using assms(1) by (auto simp add: prod_eq_iff)
  then have pos: "0 < ?l2"
    by (auto simp add: sum_squares_gt_zero_iff)
  have "distToSegmentSquared p (v1 s) (v2 s) = None"
    using ne pos assms(2,3)
    by (auto simp add: distToSegmentSquared_def squaredDistance_def Let_def power2_eq_square
        pos_divide_le_eq not_less divide_less_0_iff not_le)
  then show ?thesis
    by (simp add: Line_containsPoint_def Math_sqrt_def js_le_def)
qed

text \<open>
  C5. \<^verbatim>\<open>Line.containsPoint\<close> is claimed to hold exactly when the distance from the
  point to the segment is at most the width. For the segment from \<open>(0, 0)\<close> to
  \<open>(2, 0)\<close> of width 1 and the point \<open>(1, 0)\<close>, which lies on the segment, the
  distance is 0 and the code answers false: the projection falls inside the segment, the
  squared distance is computed against an object literal and is \<^verbatim>\<open>NaN\<close>.
\<close>

theorem Line_containsPoint_misses_point_on_segment:
  "Line_containsPoint (new_Line (0, 0) (2, 0) 1) (1, 0) = False
   \<and> distToSegmentSquared (1, 0) (0, 0) (2, 0) = None
   \<and> spec_segment_distance (1, 0) (0, 0) (2, 0) = 0
   \<and> spec_segment_distance (1, 0) (0, 0) (2, 0) \<le> width (new_Line (0, 0) (2, 0) 1)"
  by (simp add: Line_containsPoint_def new_Line_def distToSegmentSquared_def squaredDistance_def
      Math_sqrt_def js_le_def spec_segment_distance_def Let_def)

subsection \<open>Collision list\<close>

lemma addPair_both_orders_two_pairs:
  assumes "objectId a = Some i" and "objectId b = Some j" and "i \<noteq> j"
  shows "length (storedPairs (snd (addPair b a (snd (addPair a b new_CollisionList))))) = 2"
  using assms
  by (auto simp add: addPair_def compareObjects_def swap_in_addPair_def getOrCreatePair_def
      new_CollisionList_def storedPairs_def refresh_def setObjects_def new_CollisionPair_def
      truthy_def Let_def split: if_splits)

text \<open>
  C4. Registering the pair \<open>(A, B)\<close> and then \<open>(B, A)\<close> is claimed to store exactly one
  pair. For the static bodies with the ids 1 and 2 the code stores two: the first call
  finds that \<open>A\<close> does not come first, its swap leaves both variables holding \<open>A\<close>, and
  the pair is stored under \<open>(1, 1)\<close>; the second call stores \<open>(2, 1)\<close>.
\<close>

theorem addPair_twice_stores_two_pairs:
  "map fst (storedPairs (snd (addPair bodyB bodyA (snd (addPair bodyA bodyB new_CollisionList)))))
     = [(Some 1, Some 1), (Some 2, Some 1)]
   \<and> swap_in_addPair bodyA bodyB = (bodyA, bodyA)"
  by (simp add: addPair_def compareObjects_def isObjectType_def getObjectType_def
      ObjectType_Movable_def ObjectType_RigidBody_def swap_in_addPair_def getOrCreatePair_def
      new_CollisionList_def bodyA_def bodyB_def storedPairs_def refresh_def setObjects_def
      new_CollisionPair_def truthy_def Let_def)

lemma getOrCreatePair_pool_branch_throws:
  assumes "pairPool cl \<noteq> []"
    and "(case map_of (pairs cl) (objectId a) of None \<Rightarrow> None | Some l \<Rightarrow> map_of l (objectId b)) = None"
  shows "fst (getOrCreatePair a b cl) = Inl (ReferenceError ''pairPool'')"
  using assms
  by (auto simp add: getOrCreatePair_def unbound_def Let_def update_conv' split: option.splits)

text \<open>
  C7. With a pair in the pool and no pair stored for the two objects,
  \<^verbatim>\<open>getOrCreatePair\<close> is claimed to take the pair from the pool and return it. On
  the list with one pooled pair and the bodies 1 and 2 the code throws a
  \<^verbatim>\<open>ReferenceError\<close> for \<^verbatim>\<open>pairPool\<close>; the pool keeps its pair, no pair is
  stored, and the empty nested map for id 1 stays behind.
\<close>

theorem getOrCreatePair_pool_throws:
  "getOrCreatePair bodyA bodyB (new_CollisionList\<lparr>pairPool := [new_CollisionPair]\<rparr>)
     = (Inl (ReferenceError ''pairPool''),
        \<lparr>pairs = [(Some 1, [])], pairPool = [new_CollisionPair], cl_currentIteration = - 1\<rparr>)"
  by (simp add: getOrCreatePair_def new_CollisionList_def bodyA_def bodyB_def unbound_def Let_def)

subsection \<open>Stepping the world\<close>

text \<open>
  C6. Every call of \<^verbatim>\<open>stepOnce\<close> increases \<^verbatim>\<open>currentIteration\<close> by 1 and
  \<^verbatim>\<open>totalTime\<close> by \<^verbatim>\<open>config.dt\<close>, whatever \<^verbatim>\<open>running\<close> is; the run
  state is left as it was and the callback is called once, with the configured tick.
\<close>

theorem stepOnce_advances:
  "currentIteration (fst (stepOnce (w, p))) = currentIteration w + 1
   \<and> totalTime (fst (stepOnce (w, p))) = totalTime w + config_dt w
   \<and> running (fst (stepOnce (w, p))) = running w
   \<and> snd (stepOnce (w, p)) = stepIntegrate w (config_dt w) p"
  by (simp add: stepOnce_def world_step_def Let_def)


lemma currentIteration_funpow:
  "currentIteration (fst ((world_step d ^^ n) s)) = currentIteration (fst s) + int n"
  by (induction n) (simp_all add: world_step_def Let_def)






subsection \<open>Adding and removing objects\<close>

lemma addObject_lastObjectId:
  "lastObjectId (snd (snd (addObject obj w)))
     = (if hasNoId obj then lastObjectId w + 1 else lastObjectId w)"
  by (auto simp add: addObject_def hasNoId_def Let_def split: option.splits)

lemma addObject_assigned:
  "hasNoId obj \<Longrightarrow> objectId (fst (snd (addObject obj w))) = Some (lastObjectId w + 1)"
  by (auto simp add: addObject_def hasNoId_def Let_def split: option.splits)

lemma addObject_registers:
  assumes "hasNoId obj" and "map_of (objects w) (lastObjectId w + 1) = None"
  shows "fst (addObject obj w) = Inr ()"
    and "map_of (objects (snd (snd (addObject obj w)))) (lastObjectId w + 1)
           = Some (obj\<lparr>objectId := Some (lastObjectId w + 1)\<rparr>)"
  using assms
  by (auto simp add: addObject_def hasNoId_def Let_def update_conv' split: option.splits)

lemma addObject_duplicate:
  assumes "objectId obj = Some i" and "i \<noteq> 0" and "map_of (objects w) i \<noteq> None"
  shows "addObject obj w = (Inl DuplicateObjectId, obj, w)"
  using assms by (auto simp add: addObject_def Let_def)

lemma removeObject_lastObjectId: "lastObjectId (removeObject obj w) = lastObjectId w"
  by (simp add: removeObject_def split: option.splits)

lemma counterIds_above:
  "i \<in> set (counterIds ops w) \<Longrightarrow> lastObjectId w < i"
proof (induction ops arbitrary: w)
  case Nil
  then show ?case by simp
next
  case (Cons x ops)
  show ?case
  proof (cases x)
    case (Add obj)
    obtain r obj1 w1 where a: "addObject obj w = (r, obj1, w1)"
      by (cases "addObject obj w")
    have l: "lastObjectId w1 = (if hasNoId obj then lastObjectId w + 1 else lastObjectId w)"
      using addObject_lastObjectId[of obj w] a by simp
    have o: "hasNoId obj \<Longrightarrow> objectId obj1 = Some (lastObjectId w + 1)"
      using addObject_assigned[of obj w] a by simp
    from Cons.prems Add a
    have "i \<in> set (if hasNoId obj then idOf obj1 else []) \<or> i \<in> set (counterIds ops w1)"
      by auto
    then show ?thesis
    proof
      assume "i \<in> set (if hasNoId obj then idOf obj1 else [])"
      with o show ?thesis by (auto split: if_splits)
    next
      assume "i \<in> set (counterIds ops w1)"
      from Cons.IH[OF this] l show ?thesis by (auto split: if_splits)
    qed
  next
    case (Remove obj)
    with Cons.prems Cons.IH[of "removeObject obj w"] show ?thesis
      by (simp add: removeObject_lastObjectId)
  qed
qed

lemma counterIds_increasing: "sorted_wrt (<) (counterIds ops w)"
proof (induction ops arbitrary: w)
  case Nil
  then show ?case by simp
next
  case (Cons x ops)
  show ?case
  proof (cases x)
    case (Add obj)
    obtain r obj1 w1 where a: "addObject obj w = (r, obj1, w1)"
      by (cases "addObject obj w")
    have l: "lastObjectId w1 = (if hasNoId obj then lastObjectId w + 1 else lastObjectId w)"
      using addObject_lastObjectId[of obj w] a by simp
    have o: "hasNoId obj \<Longrightarrow> objectId obj1 = Some (lastObjectId w + 1)"
      using addObject_assigned[of obj w] a by simp
    have "\<forall>j \<in> set (counterIds ops w1). lastObjectId w1 < j"
      using counterIds_above by blast
    with Cons.IH[of w1] Add a l o show ?thesis
      by (auto simp add: sorted_wrt_append)
  next
    case (Remove obj)
    with Cons.IH[of "removeObject obj w"] show ?thesis by simp
  qed
qed

text \<open>
  C9, as the code has it. An object without an id gets the next id of the counter,
  \<^verbatim>\<open>lastObjectId + 1\<close>, and is registered under it when that id is free. Adding an
  object whose id is registered fails with \<^verbatim>\<open>DuplicateObjectId\<close> and leaves the
  world, its two maps included, as it was. Along any sequence of \<^verbatim>\<open>addObject\<close>
  and \<^verbatim>\<open>removeObject\<close> calls the ids taken from the counter increase strictly, so
  the counter never gives an id twice, also after the id was freed. (An id that the
  caller chose is not known to the counter.)
\<close>

theorem addObject_ids:
  "(hasNoId obj \<longrightarrow>
      objectId (fst (snd (addObject obj w))) = Some (lastObjectId w + 1)
      \<and> lastObjectId (snd (snd (addObject obj w))) = lastObjectId w + 1
      \<and> (map_of (objects w) (lastObjectId w + 1) = None \<longrightarrow>
           fst (addObject obj w) = Inr ()
           \<and> map_of (objects (snd (snd (addObject obj w)))) (lastObjectId w + 1)
               = Some (obj\<lparr>objectId := Some (lastObjectId w + 1)\<rparr>)))
   \<and> (objectId obj' = Some i \<and> i \<noteq> 0 \<and> map_of (objects w) i \<noteq> None \<longrightarrow>
        addObject obj' w = (Inl DuplicateObjectId, obj', w))
   \<and> sorted_wrt (<) (counterIds ops w)
   \<and> (\<forall>j \<in> set (counterIds ops w). lastObjectId w < j)"
  using addObject_assigned[of obj w] addObject_lastObjectId[of obj w]
    addObject_registers[of obj w] addObject_duplicate[of obj' i w]
    counterIds_increasing[of ops w] counterIds_above[of _ ops w]
  by auto

theorem addObject_ids_witness:
  "hasNoId bodyNoId
   \<and> addObject bodyNoId emptyWorld
       = (Inr (), bodyNoId\<lparr>objectId := Some 1\<rparr>,
          emptyWorld\<lparr>lastObjectId := 1, objects := [(1, bodyNoId\<lparr>objectId := Some 1\<rparr>)],
                      movables := [(1, bodyNoId\<lparr>objectId := Some 1\<rparr>)]\<rparr>)
   \<and> objectId bodyA = Some 1 \<and> (1::int) \<noteq> 0
   \<and> map_of (objects (snd (snd (addObject bodyNoId emptyWorld)))) 1 \<noteq> None
   \<and> fst (addObject bodyA (snd (snd (addObject bodyNoId emptyWorld)))) = Inl DuplicateObjectId
   \<and> counterIds [Add bodyNoId, Remove (bodyNoId\<lparr>objectId := Some 1\<rparr>), Add bodyNoId] emptyWorld = [1, 2]
   \<and> sorted_wrt (<) (counterIds [Add bodyNoId, Remove (bodyNoId\<lparr>objectId := Some 1\<rparr>), Add bodyNoId] emptyWorld)"
  using addObject_ids[of bodyNoId emptyWorld bodyA 1
      "[Add bodyNoId, Remove (bodyNoId\<lparr>objectId := Some 1\<rparr>), Add bodyNoId]"]
    addObject_ids[of bodyNoId "snd (snd (addObject bodyNoId emptyWorld))" bodyA 1 "[]"]
  by (simp add: addObject_def removeObject_def hasNoId_def bodyNoId_def bodyA_def emptyWorld_def
      initialWorld_def isObjectType_def getObjectType_def ObjectType_Movable_def
      ObjectType_RigidBody_def truthy_def Let_def)

text \<open>
  C9 as stated fails in its last part. The body with the explicit id 1 is added to a new
  world and removed again, which frees the id 1; the object added next has no id and is
  given the id 1 by the counter, which the explicit id never advanced.
\<close>

theorem freed_id_is_assigned_again:
  "fst (addObject bodyA emptyWorld) = Inr ()
   \<and> objectId (fst (snd (addObject bodyA emptyWorld))) = Some 1
   \<and> map_of (objects (removeObject bodyA (snd (snd (addObject bodyA emptyWorld))))) 1 = None
   \<and> fst (addObject bodyNoId (removeObject bodyA (snd (snd (addObject bodyA emptyWorld))))) = Inr ()
   \<and> objectId (fst (snd (addObject bodyNoId
        (removeObject bodyA (snd (snd (addObject bodyA emptyWorld))))))) = Some 1"
  by (simp add: addObject_def removeObject_def bodyNoId_def bodyA_def emptyWorld_def
      initialWorld_def isObjectType_def getObjectType_def ObjectType_Movable_def
      ObjectType_RigidBody_def truthy_def Let_def)

subsection \<open>Point queries\<close>

lemma containsPoint_heap:
  assumes "p < length h"
  shows "snd (RigidBody_containsPoint obj p h) ! p
           = (fst (h ! p) - fst (h ! position obj), snd (h ! p) - snd (h ! position obj))"
    and "length (snd (RigidBody_containsPoint obj p h)) = length h"
    and "a \<noteq> p \<Longrightarrow> snd (RigidBody_containsPoint obj p h) ! a = h ! a"
  using assms by (simp_all add: RigidBody_containsPoint_def vec2_subtract_def Let_def)

lemma foreach_loop_frame:
  assumes "point < length h" and "a \<noteq> point"
  shows "fst (foreach_loop callback point qpoint objs h acc) ! a = h ! a
       \<and> length (fst (foreach_loop callback point qpoint objs h acc)) = length h"
  using assms
proof (induction objs arbitrary: h acc)
  case Nil
  then show ?case by simp
next
  case (Cons x objs)
  obtain k obj where x: "x = (k, obj)" by (cases x)
  let ?h1 = "vec2_copy point qpoint h"
  let ?h2 = "snd (RigidBody_containsPoint obj point ?h1)"
  have len1: "length ?h1 = length h" by (simp add: vec2_copy_def)
  have len2: "length ?h2 = length h"
    using Cons.prems(1) len1 by (simp add: containsPoint_heap(2))
  have same: "?h2 ! a = h ! a"
    using Cons.prems by (simp add: containsPoint_heap(3) vec2_copy_def)
  from Cons.IH[of ?h2] Cons.prems len2 same
  show ?case
    by (simp add: x Let_def split_beta)
qed

lemma foreachObjectAtPoint_frame:
  assumes "a < length h"
  shows "fst (foreachObjectAtPoint qpoint callback w h acc) ! a = h ! a"
proof -
  have "fst (foreach_loop callback (length h) qpoint (objects w) (h @ [(0, 0)]) acc) ! a
          = (h @ [(0, 0)]) ! a"
    using assms foreach_loop_frame[where point = "length h" and h = "h @ [(0, 0)]" and a = a
        and callback = callback and qpoint = qpoint and objs = "objects w" and acc = acc]
    by simp
  with assms show ?thesis
    by (simp add: foreachObjectAtPoint_def vec2_create_def nth_append)
qed

text \<open>
  C10. \<^verbatim>\<open>containsPoint\<close> of a body writes its argument: after the call the vector
  holds what it held before minus the position of the body, and the shape was asked
  about that difference. \<^verbatim>\<open>foreachObjectAtPoint\<close> hands the bodies a scratch vector
  of its own, into which it copies the query point before each body, so every vector the
  caller had before the call, the query point among them, holds after the call what it
  held before.
\<close>

theorem containsPoint_writes_argument_foreach_does_not:
  assumes "p < length h"
  shows "snd (RigidBody_containsPoint obj p h) ! p
           = (fst (h ! p) - fst (h ! position obj), snd (h ! p) - snd (h ! position obj))
       \<and> fst (RigidBody_containsPoint obj p h)
           = shape_containsPoint (shape obj)
               (fst (h ! p) - fst (h ! position obj), snd (h ! p) - snd (h ! position obj))
       \<and> fst (foreachObjectAtPoint p callback w h acc) ! p = h ! p
       \<and> (\<forall>a < length h. fst (foreachObjectAtPoint p callback w h acc) ! a = h ! a)"
  using assms containsPoint_heap(1)[OF assms, of obj]
    foreachObjectAtPoint_frame[of _ h p callback w acc]
  by (simp add: RigidBody_containsPoint_def vec2_subtract_def Let_def)

theorem containsPoint_writes_argument_witness:
  "(0::nat) < length [(3, 4), (1, 1) :: vec2]
   \<and> snd (RigidBody_containsPoint bodyB 0 [(3, 4), (1, 1)]) ! 0 = (2, 3)
   \<and> fst (foreachObjectAtPoint 0 (\<lambda>obj acc. obj # acc)
            (emptyWorld\<lparr>objects := [(2, bodyB)]\<rparr>) [(3, 4), (1, 1)] []) ! 0 = (3, 4)"
  using containsPoint_writes_argument_foreach_does_not[of 0 "[(3, 4), (1, 1)]" bodyB
      "\<lambda>obj acc. obj # acc" "emptyWorld\<lparr>objects := [(2, bodyB)]\<rparr>" "[]"]
  by (simp add: bodyB_def)

subsection \<open>Pulley\<close>

lemma integrate_constants:
  assumes "integrate dt pl = Some pl1"
  shows "freeStringLength pl1 = freeStringLength pl" and "pulleyTop pl1 = pulleyTop pl"
  using assms by (auto simp add: integrate_def Let_def split: if_splits)

text \<open>
  When the position that the integration reaches exceeds the distance from the pulley to
  the floor, the first branch wins and the position is set to \<^verbatim>\<open>pulleyTop\<close>,
  whatever the length of the string.
\<close>

lemma floor_branch_first:
  assumes "integrate dt pl = Some pl1"
    and "pulleyTop pl - cfg_floor < payloadPosition (physics pl1)"
  shows "\<exists>pl2. pulley_stepIntegrate cfg_floor dt pl = Some pl2
           \<and> payloadPosition (physics pl2) = pulleyTop pl
           \<and> payloadVelocity (physics pl2) = 0"
  using assms integrate_constants[OF assms(1)]
  by (auto simp add: pulley_stepIntegrate_def resolveCollisions_def Let_def)

text \<open>
  C1, as the code has it. Let \<open>p'\<close> be the position that a tick reaches before the
  collisions are resolved. On every tick with \<open>p'\<close> at most the distance from the pulley
  to the floor (\<^verbatim>\<open>pulleyTop - floor\<close>), the position after the tick does not exceed
  \<^verbatim>\<open>freeStringLength\<close>, and if \<open>p'\<close> exceeds \<^verbatim>\<open>freeStringLength\<close> the tick
  sets the position to \<^verbatim>\<open>freeStringLength\<close> and the velocity to 0.
\<close>

theorem stepIntegrate_clamps_at_freeStringLength:
  assumes "integrate dt pl = Some pl1"
    and "0 \<le> freeStringLength pl"
    and "cfg_floor \<le> pulleyTop pl"
    and "payloadPosition (physics pl1) \<le> pulleyTop pl - cfg_floor"
  shows "\<exists>pl2. pulley_stepIntegrate cfg_floor dt pl = Some pl2
           \<and> payloadPosition (physics pl2) \<le> freeStringLength pl
           \<and> (freeStringLength pl < payloadPosition (physics pl1) \<longrightarrow>
                payloadPosition (physics pl2) = freeStringLength pl
                \<and> payloadVelocity (physics pl2) = 0)"
  using assms integrate_constants[OF assms(1)]
  by (auto simp add: pulley_stepIntegrate_def resolveCollisions_def Let_def)

theorem stepIntegrate_clamps_witness:
  "map_option (\<lambda>pl. payloadPosition (physics pl)) (integrate (3 / 200) nearEndPulley)
     = Some (600943 / 200000)
   \<and> 0 \<le> freeStringLength nearEndPulley
   \<and> 0 \<le> pulleyTop nearEndPulley
   \<and> freeStringLength nearEndPulley < 600943 / 200000
   \<and> 600943 / 200000 \<le> pulleyTop nearEndPulley - 0
   \<and> (\<exists>pl2. pulley_stepIntegrate 0 (3 / 200) nearEndPulley = Some pl2
          \<and> payloadPosition (physics pl2) = 3 \<and> payloadVelocity (physics pl2) = 0)"
proof -
  obtain pl1 where i: "integrate (3 / 200) nearEndPulley = Some pl1"
      and p: "payloadPosition (physics pl1) = 600943 / 200000"
    by (simp add: integrate_def nearEndPulley_def valveOpenPulley_def setControllerValue_def
        CreatePulley_def Let_def)
  have c: "freeStringLength nearEndPulley = 3" "pulleyTop nearEndPulley = 22 / 5"
    by (simp_all add: nearEndPulley_def valveOpenPulley_def setControllerValue_def
        CreatePulley_def Let_def)
  from stepIntegrate_clamps_at_freeStringLength[OF i, of 0] p c
  have "\<exists>pl2. pulley_stepIntegrate 0 (3 / 200) nearEndPulley = Some pl2
          \<and> payloadPosition (physics pl2) = 3 \<and> payloadVelocity (physics pl2) = 0"
    by auto
  with i p c show ?thesis by simp
qed

text \<open>
  C1 as stated fails for a large tick. The program's pulley, at position 1.5 with the
  valve open, steps once with \<open>dt = 1\<close>: the integration reaches 11.31, beyond the
  length 3 of the string and beyond the 4.4 between pulley and floor, and the tick leaves
  the position at 4.4, not at 3.
\<close>

theorem large_tick_leaves_position_beyond_string:
  "payloadPosition (physics valveOpenPulley) = 3 / 2
   \<and> freeStringLength valveOpenPulley = 3
   \<and> map_option (\<lambda>pl. payloadPosition (physics pl)) (integrate 1 valveOpenPulley)
       = Some (1131 / 100)
   \<and> map_option (\<lambda>pl. (payloadPosition (physics pl), payloadVelocity (physics pl)))
        (pulley_stepIntegrate 0 1 valveOpenPulley) = Some (22 / 5, 0)"
  by (simp add: pulley_stepIntegrate_def resolveCollisions_def integrate_def valveOpenPulley_def
      setControllerValue_def CreatePulley_def Let_def)

text \<open>
  In the program's own configuration the premise of the clamp always holds. A tick
  changes the velocity to \<open>v * (1 - 10 * dt) + a * dt\<close> with \<open>a\<close> either 9.81 or
  -9.81, so that with \<open>10 * dt \<le> 1\<close> a velocity within 0.981 stays within 0.981 and
  the position moves by at most \<open>0.981 * dt\<close> in a tick; the controller changes the
  actuators only. From the initial pulley, with the floor at 0 and the tick 0.015, the
  position stays on the string after any number of steps.
\<close>

lemma integrate_bounds:
  assumes i: "integrate dt pl = Some pl1"
    and dt: "0 < dt" "10 * dt \<le> 1"
    and v: "\<bar>payloadVelocity (physics pl)\<bar> \<le> 981 / 1000"
  shows "\<bar>payloadVelocity (physics pl1)\<bar> \<le> 981 / 1000"
    and "\<bar>payloadPosition (physics pl1) - payloadPosition (physics pl)\<bar> \<le> 981 / 1000 * dt"
proof -
  define ph where "ph = physics pl"
  define vol1 where "vol1 = (if isPumpOn ph then ballonetVolume ph + ballonetPumpInFlow pl * dt
                  else ballonetVolume ph)"
  define vol2 where "vol2 = (if isValveOpen ph then max 0 (vol1 - ballonetOutFlow pl * dt) else vol1)"
  define m where "m = payloadMass pl + vol2 * 1.2"
  define a where "a = (m * (- 9.81) - counterWeightMass pl * (- 9.81) + 0) / \<bar>m - counterWeightMass pl\<bar>"
  define v0 where "v0 = payloadVelocity ph"
  define v1 where "v1 = v0 + (a + - 10 * v0) * dt"
  from i have ne: "m - counterWeightMass pl \<noteq> 0"
    by (auto simp add: integrate_def Let_def m_def vol2_def vol1_def ph_def split: if_splits)
  from i have v1: "payloadVelocity (physics pl1) = v1"
    and p1: "payloadPosition (physics pl1) = payloadPosition ph + v1 * dt"
    by (auto simp add: integrate_def Let_def m_def vol2_def vol1_def ph_def a_def v0_def v1_def
        split: if_splits)
  have num: "m * (- 9.81) - counterWeightMass pl * (- 9.81) + 0
               = (- 981 / 100) * (m - counterWeightMass pl)"
    by (simp add: field_simps)
  define k where "k = m - counterWeightMass pl"
  have a_eq: "a = (- 981 / 100) * k / \<bar>k\<bar>"
    by (simp only: a_def num k_def)
  have k1: "\<bar>k / \<bar>k\<bar>\<bar> = 1"
    using ne by (simp add: k_def)
  have "a = (- 981 / 100) * (k / \<bar>k\<bar>)"
    using a_eq by simp
  then have "\<bar>a\<bar> = \<bar>- 981 / 100 :: real\<bar> * \<bar>k / \<bar>k\<bar>\<bar>"
    by (simp only: abs_mult)
  with k1 have a: "\<bar>a\<bar> = 981 / 100"
    by simp
  have split: "v1 = v0 * (1 - 10 * dt) + a * dt"
    by (simp add: v1_def algebra_simps)
  have t1: "\<bar>v0 * (1 - 10 * dt)\<bar> = \<bar>v0\<bar> * (1 - 10 * dt)"
    using dt by (simp add: abs_mult)
  have t2: "\<bar>a * dt\<bar> = 981 / 100 * dt"
    using dt a by (simp add: abs_mult)
  have t3: "\<bar>v0\<bar> * (1 - 10 * dt) \<le> 981 / 1000 * (1 - 10 * dt)"
    using v dt by (intro mult_right_mono) (simp_all add: v0_def ph_def)
  have "\<bar>v1\<bar> \<le> \<bar>v0 * (1 - 10 * dt)\<bar> + \<bar>a * dt\<bar>"
    unfolding split by (rule abs_triangle_ineq)
  also have "\<dots> \<le> 981 / 1000 * (1 - 10 * dt) + 981 / 100 * dt"
    using t1 t2 t3 by linarith
  also have "\<dots> = 981 / 1000" by (simp add: field_simps)
  finally have b: "\<bar>v1\<bar> \<le> 981 / 1000" .
  then show "\<bar>payloadVelocity (physics pl1)\<bar> \<le> 981 / 1000" by (simp add: v1)
  have "\<bar>v1 * dt\<bar> \<le> 981 / 1000 * dt"
    using b dt by (simp add: abs_mult mult_right_mono)
  then show "\<bar>payloadPosition (physics pl1) - payloadPosition (physics pl)\<bar> \<le> 981 / 1000 * dt"
    by (simp add: p1 ph_def)
qed

lemma configured_tick_invariant:
  assumes s: "pulley_stepIntegrate cfg_floor dt pl = Some pl2"
    and dt: "0 < dt" "10 * dt \<le> 1"
    and p: "0 \<le> payloadPosition (physics pl)" "payloadPosition (physics pl) \<le> freeStringLength pl"
    and v: "\<bar>payloadVelocity (physics pl)\<bar> \<le> 981 / 1000"
    and room: "freeStringLength pl + 981 / 1000 * dt \<le> pulleyTop pl - cfg_floor"
  shows "0 \<le> payloadPosition (physics pl2) \<and> payloadPosition (physics pl2) \<le> freeStringLength pl2
       \<and> \<bar>payloadVelocity (physics pl2)\<bar> \<le> 981 / 1000
       \<and> freeStringLength pl2 = freeStringLength pl \<and> pulleyTop pl2 = pulleyTop pl"
proof -
  from s obtain pl1 where i: "integrate dt pl = Some pl1" and r: "pl2 = resolveCollisions cfg_floor pl1"
    by (auto simp add: pulley_stepIntegrate_def)
  note c = integrate_constants[OF i]
  note b = integrate_bounds[OF i dt v]
  from b(2) p room dt have hi: "payloadPosition (physics pl1) \<le> pulleyTop pl - cfg_floor"
    by linarith
  from b(2) p room dt have lo: "freeStringLength pl - payloadPosition (physics pl1) \<le> pulleyTop pl - cfg_floor"
    by linarith
  from p have f: "0 \<le> freeStringLength pl" by simp
  show ?thesis
    using hi lo b(1) c f
    by (auto simp add: r resolveCollisions_def Let_def)
qed

lemma PID_update_keeps:
  "payloadPosition (physics (snd (snd (PID_update c pl)))) = payloadPosition (physics pl)"
  "payloadVelocity (physics (snd (snd (PID_update c pl)))) = payloadVelocity (physics pl)"
  "freeStringLength (snd (snd (PID_update c pl))) = freeStringLength pl"
  "pulleyTop (snd (snd (PID_update c pl))) = pulleyTop pl"
  by (simp_all add: PID_update_def setControllerValue_def Let_def)

lemma run_app_invariant:
  assumes "run_app cfg_floor dt n (c, pl) = Some (c', pl')"
    and dt: "0 < dt" "10 * dt \<le> 1"
    and p: "0 \<le> payloadPosition (physics pl)" "payloadPosition (physics pl) \<le> freeStringLength pl"
    and v: "\<bar>payloadVelocity (physics pl)\<bar> \<le> 981 / 1000"
    and room: "freeStringLength pl + 981 / 1000 * dt \<le> pulleyTop pl - cfg_floor"
  shows "0 \<le> payloadPosition (physics pl') \<and> payloadPosition (physics pl') \<le> freeStringLength pl
       \<and> \<bar>payloadVelocity (physics pl')\<bar> \<le> 981 / 1000"
  using assms
proof (induction n arbitrary: c pl)
  case 0
  then show ?case by simp
next
  case (Suc n)
  from Suc.prems(1) obtain c1 pl1 where a: "app_stepIntegrate cfg_floor dt (c, pl) = Some (c1, pl1)"
      and rest: "run_app cfg_floor dt n (c1, pl1) = Some (c', pl')"
    by (auto split: option.splits)
  define pl0 where "pl0 = snd (snd (PID_update c pl))"
  from a have s: "pulley_stepIntegrate cfg_floor dt pl0 = Some pl1"
    by (auto simp add: app_stepIntegrate_def pl0_def split: prod.splits)
  have k: "payloadPosition (physics pl0) = payloadPosition (physics pl)"
    "payloadVelocity (physics pl0) = payloadVelocity (physics pl)"
    "freeStringLength pl0 = freeStringLength pl" "pulleyTop pl0 = pulleyTop pl"
    by (simp_all add: pl0_def PID_update_keeps)
  from configured_tick_invariant[OF s Suc.prems(2,3)] Suc.prems(4-7) k
  have inv: "0 \<le> payloadPosition (physics pl1) \<and> payloadPosition (physics pl1) \<le> freeStringLength pl1
       \<and> \<bar>payloadVelocity (physics pl1)\<bar> \<le> 981 / 1000
       \<and> freeStringLength pl1 = freeStringLength pl \<and> pulleyTop pl1 = pulleyTop pl"
    by simp
  from Suc.IH[OF rest Suc.prems(2,3)] inv Suc.prems(7)
  show ?case by simp
qed

lemma program_position_stays_on_string:
  assumes "run_app 0 (3 / 200) n (c, CreatePulley 5) = Some (c', pl')"
  shows "0 \<le> payloadPosition (physics pl') \<and> payloadPosition (physics pl') \<le> 3
       \<and> \<bar>payloadVelocity (physics pl')\<bar> \<le> 981 / 1000"
  using run_app_invariant[OF assms] by (simp add: CreatePulley_def Let_def)

subsection \<open>PID controller\<close>

lemma PID_update_on:
  assumes "isOn c"
  shows "PID_update c plant =
     (let err = setPoint c - getControllerValue plant;
          P = kP c * err;
          I = Iout (pid_physics c) + kI c * err;
          D = kD c * (err - errorValue (pid_physics c));
          u = P + I + D
      in (Some u,
          c\<lparr>pid_physics := \<lparr>errorValue = err, Pout = P, Iout = I, Dout = D, pid_u = u\<rparr>\<rparr>,
          setControllerValue u plant))"
  using assms by (cases "pid_physics c") (simp add: PID_update_def Let_def)

lemma PID_update_off: "\<not> isOn c \<Longrightarrow> PID_update c plant = (None, c, plant)"
  by (simp add: PID_update_def)

lemma setControllerValue_zero:
  "\<not> isPumpOn (physics (setControllerValue 0 plant)) \<and> \<not> isValveOpen (physics (setControllerValue 0 plant))"
  by (simp add: setControllerValue_def Let_def)

lemma zero_gains_outputs:
  assumes "kP c = 0" and "kI c = 0" and "kD c = 0" and "Iout (pid_physics c) = 0"
  shows "list_all (\<lambda>r. fst r = (if isOn (fst (snd r)) then Some 0 else None)
                      \<and> Iout (pid_physics (fst (snd r))) = 0
                      \<and> (isOn (fst (snd r)) \<longrightarrow>
                           \<not> isPumpOn (physics (snd (snd r))) \<and> \<not> isValveOpen (physics (snd (snd r)))))
           (outputs c xs)"
  using assms
proof (induction xs arbitrary: c)
  case Nil
  then show ?case by simp
next
  case (Cons x xs)
  obtain toggle plant where x: "x = (toggle, plant)" by (cases x)
  define c1 where "c1 = (if toggle then toggleController c else c)"
  have g: "kP c1 = 0" "kI c1 = 0" "kD c1 = 0" "Iout (pid_physics c1) = 0"
    using Cons.prems by (simp_all add: c1_def toggleController_def)
  define r where "r = PID_update c1 plant"
  have r: "r = (if isOn c1
                then (Some 0, c1\<lparr>pid_physics := \<lparr>errorValue = setPoint c1 - getControllerValue plant,
                        Pout = 0, Iout = 0, Dout = 0, pid_u = 0\<rparr>\<rparr>, setControllerValue 0 plant)
                else (None, c1, plant))"
    using g by (simp add: r_def PID_update_on PID_update_off Let_def)
  have g2: "kP (fst (snd r)) = 0" "kI (fst (snd r)) = 0" "kD (fst (snd r)) = 0"
      "Iout (pid_physics (fst (snd r))) = 0"
    using g by (simp_all add: r)
  have here: "fst r = (if isOn (fst (snd r)) then Some 0 else None)
        \<and> Iout (pid_physics (fst (snd r))) = 0
        \<and> (isOn (fst (snd r)) \<longrightarrow>
              \<not> isPumpOn (physics (snd (snd r))) \<and> \<not> isValveOpen (physics (snd (snd r))))"
    using g setControllerValue_zero[of plant] by (simp add: r)
  from Cons.IH[OF g2] here show ?case
    by (simp add: x c1_def[symmetric] r_def[symmetric] Let_def)
qed

text \<open>
  C3. With \<^verbatim>\<open>isOn\<close> true, \<^verbatim>\<open>update\<close> computes the error from the set point and
  the plant's value, the three terms and their sum \<open>u\<close>, adds to the accumulator
  \<^verbatim>\<open>Iout\<close>, passes \<open>u\<close> to the plant and returns it; with \<^verbatim>\<open>isOn\<close> false it
  changes nothing, and toggling the controller keeps its running state, \<^verbatim>\<open>Iout\<close>
  included. With the three gains 0 and \<^verbatim>\<open>Iout\<close> 0 at the start, every call in any
  sequence of calls and toggles returns 0 while the controller is on, leaves
  \<^verbatim>\<open>Iout\<close> at 0 and switches both actuators off.
\<close>

theorem PID_update_spec:
  "(isOn c \<longrightarrow>
      PID_update c plant =
        (let err = setPoint c - getControllerValue plant;
             P = kP c * err;
             I = Iout (pid_physics c) + kI c * err;
             D = kD c * (err - errorValue (pid_physics c));
             u = P + I + D
         in (Some u,
             c\<lparr>pid_physics := \<lparr>errorValue = err, Pout = P, Iout = I, Dout = D, pid_u = u\<rparr>\<rparr>,
             setControllerValue u plant)))
   \<and> (\<not> isOn c \<longrightarrow> PID_update c plant = (None, c, plant))
   \<and> pid_physics (toggleController c) = pid_physics c
   \<and> (kP c = 0 \<and> kI c = 0 \<and> kD c = 0 \<and> Iout (pid_physics c) = 0 \<longrightarrow>
        list_all (\<lambda>r. fst r = (if isOn (fst (snd r)) then Some 0 else None)
                     \<and> Iout (pid_physics (fst (snd r))) = 0
                     \<and> (isOn (fst (snd r)) \<longrightarrow>
                          \<not> isPumpOn (physics (snd (snd r)))
                          \<and> \<not> isValveOpen (physics (snd (snd r)))))
          (outputs c xs))"
  using PID_update_on[of c plant] PID_update_off[of c plant] zero_gains_outputs[of c xs]
  by (simp add: toggleController_def)

theorem PID_update_spec_witness:
  "isOn (PIDControllerClass 2 True (1 / 10) 0 3)
   \<and> fst (PID_update (PIDControllerClass 2 True (1 / 10) 0 3) (CreatePulley 5)) = Some (31 / 20)
   \<and> pid_physics (fst (snd (PID_update (PIDControllerClass 2 True (1 / 10) 0 3) (CreatePulley 5))))
       = \<lparr>errorValue = 1 / 2, Pout = 1 / 20, Iout = 0, Dout = 3 / 2, pid_u = 31 / 20\<rparr>
   \<and> isValveOpen (physics (snd (snd (PID_update (PIDControllerClass 2 True (1 / 10) 0 3) (CreatePulley 5)))))
   \<and> \<not> isOn (toggleController (PIDControllerClass 2 True 0 0 0))
   \<and> PID_update (toggleController (PIDControllerClass 2 True 0 0 0)) (CreatePulley 5)
       = (None, toggleController (PIDControllerClass 2 True 0 0 0), CreatePulley 5)
   \<and> kP (PIDControllerClass 2 True 0 0 0) = 0 \<and> kI (PIDControllerClass 2 True 0 0 0) = 0
   \<and> kD (PIDControllerClass 2 True 0 0 0) = 0
   \<and> Iout (pid_physics (PIDControllerClass 2 True 0 0 0)) = 0
   \<and> map fst (outputs (PIDControllerClass 2 True 0 0 0)
        [(False, CreatePulley 5), (True, CreatePulley 5), (True, valveOpenPulley)])
       = [Some 0, None, Some 0]"
  using PID_update_spec[of "PIDControllerClass 2 True (1 / 10) 0 3" "CreatePulley 5" "[]"]
    PID_update_spec[of "toggleController (PIDControllerClass 2 True 0 0 0)" "CreatePulley 5" "[]"]
    PID_update_spec[of "PIDControllerClass 2 True 0 0 0" "CreatePulley 5"
      "[(False, CreatePulley 5), (True, CreatePulley 5), (True, valveOpenPulley)]"]
  by (simp add: PIDControllerClass_def PID_update_def toggleController_def getControllerValue_def
      setControllerValue_def CreatePulley_def valveOpenPulley_def Let_def)

end
